theory Spec2Isabelle
  imports Complex_Main "HOL-Library.AList"
begin

section \<open>Data model of \<^verbatim>\<open>tunnel_manager.py\<close>\<close>

text \<open>
  A \<^verbatim>\<open>subprocess.Popen\<close> handle is identified by the pid of the process it owns.
\<close>

datatype popen = Popen (pid_of: nat)

text \<open>
  The dictionary stored under each port in \<^verbatim>\<open>self.active_tunnels\<close> (built at
  lines 137-148 of \<^verbatim>\<open>create_tunnel\<close>): every key is always present, so the
  dictionary is a record. Python integers are \<open>int\<close>, \<^verbatim>\<open>time.time()\<close> is a \<open>real\<close>.
\<close>

record tunnel =
  process :: popen
  public_url :: string
  start_time :: real
  logs :: "string list"
  pid :: nat
  status :: string
  health :: int
  ping :: int
  status_text :: string
  port :: string

text \<open>
  \<^verbatim>\<open>self.active_tunnels\<close> is a Python dictionary keyed by the port string. It is an
  association list in insertion order: lookup is \<open>map_of\<close>, assignment is
  \<open>AList.update\<close> (in place when the key exists, at the end otherwise), \<^verbatim>\<open>pop\<close> and
  \<^verbatim>\<open>del\<close> are \<open>AList.delete\<close>, and a mutation of the stored dictionary is
  \<open>AList.map_entry\<close>. Every operation takes the port already converted by
  \<^verbatim>\<open>str(port)\<close>.
\<close>

type_synonym tunnels = "(string \<times> tunnel) list"

text \<open>
  What an operation does to the map and to the outside world, in the order it does it.
\<close>

datatype action =
    Spawn "string list"
  | MapRemove string
  | MapAssign string
  | Terminate nat
  | Kill nat
  | WaitProcs "nat list"
  | Wait nat
  | HttpGet string
  | StartLogReader string

section \<open>Strings\<close>

text \<open>\<^verbatim>\<open>str(n)\<close> for a Python integer.\<close>

definition digit :: "nat \<Rightarrow> char" where
  "digit n = ''0123456789'' ! (n mod 10)"

function str_nat :: "nat \<Rightarrow> string" where
  "str_nat n = (if n < 10 then [digit n] else str_nat (n div 10) @ [digit n])"
  by pat_completeness auto
termination
  by (relation "measure id") auto

definition str_int :: "int \<Rightarrow> string" where
  "str_int i = (if i < 0 then CHR ''-'' # str_nat (nat (- i)) else str_nat (nat i))"

text \<open>
  \<^verbatim>\<open>line.strip()\<close>: leading and trailing whitespace removed. A \<open>char\<close> is a code
  point below 256. The characters below 256 for which Python's \<^verbatim>\<open>str.isspace\<close> holds,
  which are the ones \<^verbatim>\<open>strip()\<close> removes, are tab, line feed, vertical tab, form
  feed and carriage return (9 to 13), the separators 28 to 31, the space (32), the next
  line control U+0085 (133) and the no-break space U+00A0 (160).
\<close>

definition is_space :: "char \<Rightarrow> bool" where
  "is_space c =
     (let n = (of_char c :: nat)
      in (9 \<le> n \<and> n \<le> 13) \<or> (28 \<le> n \<and> n \<le> 32) \<or> n = 133 \<or> n = 160)"

definition strip :: "string \<Rightarrow> string" where
  "strip s = rev (dropWhile is_space (rev (dropWhile is_space s)))"

text \<open>\<^verbatim>\<open>' '.join(cmd)\<close>.\<close>

fun join_space :: "string list \<Rightarrow> string" where
  "join_space [] = []"
| "join_space [x] = x"
| "join_space (x # y # ys) = x @ '' '' @ join_space (y # ys)"

text \<open>
  \<^verbatim>\<open>re.search(r'(https://[a-zA-Z0-9-]+\.trycloudflare\.com)', line)\<close> and
  \<^verbatim>\<open>group(0)\<close> of the match. The character class has no dot, so the greedy run of
  label characters never has to give a character back: at a start position the pattern
  matches exactly when \<^verbatim>\<open>https://\<close> is followed by a non-empty maximal run of label
  characters and then by the fixed suffix. \<^verbatim>\<open>re.search\<close> returns the match at the
  leftmost start position.
\<close>

definition label_char :: "char \<Rightarrow> bool" where
  "label_char c =
     (c \<in> set ''abcdefghijklmnopqrstuvwxyzABCDEFGHIJKLMNOPQRSTUVWXYZ0123456789-'')"

definition match_here :: "string \<Rightarrow> string option" where
  "match_here s =
     (if take 8 s = ''https://'' then
        (let r = drop 8 s; lab = takeWhile label_char r; r' = dropWhile label_char r
         in if lab \<noteq> [] \<and> take 18 r' = ''.trycloudflare.com''
            then Some (''https://'' @ lab @ ''.trycloudflare.com'') else None)
      else None)"

fun re_search :: "string \<Rightarrow> string option" where
  "re_search [] = None"
| "re_search (c # cs) =
     (case match_here (c # cs) of Some u \<Rightarrow> Some u | None \<Rightarrow> re_search cs)"

text \<open>
  The pattern itself, for comparison with \<open>re_search\<close>: \<open>url_at l k u\<close> says that
  the text \<open>u\<close> stands in the line \<open>l\<close> from position \<open>k\<close> on and is
  \<^verbatim>\<open>https://\<close>, one or more characters of the class \<^verbatim>\<open>[a-zA-Z0-9-]\<close> and
  \<^verbatim>\<open>.trycloudflare.com\<close>.
\<close>

definition url_at :: "string \<Rightarrow> nat \<Rightarrow> string \<Rightarrow> bool" where
  "url_at l k u =
     (\<exists>a lab b. l = a @ u @ b \<and> length a = k \<and>
        u = ''https://'' @ lab @ ''.trycloudflare.com'' \<and> lab \<noteq> [] \<and>
        (\<forall>c \<in> set lab. label_char c))"

section \<open>\<^verbatim>\<open>terminate_tunnel\<close>\<close>

text \<open>
  What the operating system answers during the teardown of lines 200-227:
  \<^item> \<open>Tree children alive\<close>: \<^verbatim>\<open>psutil.Process(pid)\<close> and
    \<^verbatim>\<open>children(recursive=True)\<close> succeed with the pids \<open>children\<close>, and
    \<^verbatim>\<open>wait_procs\<close> reports the pids \<open>alive\<close> as still running after 3 seconds;
  \<^item> \<open>NoSuchProcess\<close>: the enumeration raises \<^verbatim>\<open>psutil.NoSuchProcess\<close>;
  \<^item> \<open>PsutilError e\<close>: the enumeration raises any other exception.
  Exceptions of the individual \<^verbatim>\<open>terminate()\<close>, \<^verbatim>\<open>kill()\<close> and \<^verbatim>\<open>wait()\<close>
  calls are swallowed by the source where they are raised, so they do not show.
\<close>

datatype psutil_result =
    Tree "nat list" "nat list"
  | NoSuchProcess
  | PsutilError string

text \<open>
  \<open>fault\<close> is an unexpected exception raised after the record has been popped and
  before the teardown starts (the \<^verbatim>\<open>print\<close> of line 197 is the only statement there
  outside an inner \<^verbatim>\<open>try\<close>); it reaches the outer handler of lines 237-243.
\<close>

record term_env =
  fault :: "string option"
  psutil :: psutil_result

definition teardown :: "tunnel \<Rightarrow> psutil_result \<Rightarrow> action list" where
  "teardown d r =
     (case r of
        Tree children alive \<Rightarrow>
          map Terminate children @ [Terminate (pid d), WaitProcs (pid d # children)] @
          map Kill alive
      | NoSuchProcess \<Rightarrow> []
      | PsutilError e \<Rightarrow> [Terminate (pid_of (process d))])
     @ [Wait (pid_of (process d))]"

text \<open>Lines 240-242: \<^verbatim>\<open>if port in self.active_tunnels: del self.active_tunnels[port]\<close>.\<close>

definition ensure_removed :: "string \<Rightarrow> tunnels \<Rightarrow> tunnels \<times> action list" where
  "ensure_removed prt s =
     (if prt \<in> fst ` set s then (AList.delete prt s, [MapRemove prt]) else (s, []))"

definition terminate_tunnel ::
  "tunnels \<Rightarrow> string \<Rightarrow> term_env \<Rightarrow> bool \<times> tunnels \<times> action list" where
  "terminate_tunnel s prt env =
     (case map_of s prt of
        None \<Rightarrow> (False, s, [])
      | Some d \<Rightarrow>
          (let s1 = AList.delete prt s in
           case fault env of
             Some e \<Rightarrow>
               (let (s2, acts) = ensure_removed prt s1 in (False, s2, MapRemove prt # acts))
           | None \<Rightarrow> (True, s1, MapRemove prt # teardown d (psutil env))))"

section \<open>\<^verbatim>\<open>get_tunnel_stats\<close>\<close>

text \<open>
  An exception of \<^verbatim>\<open>requests.get\<close>, as the \<^verbatim>\<open>except\<close> clauses of lines 279-291 see
  it: whether it is an instance of \<^verbatim>\<open>requests.exceptions.Timeout\<close> and whether it is
  an instance of \<^verbatim>\<open>requests.exceptions.ConnectionError\<close> (an exception class of the
  library can be both).
\<close>

record req_exception =
  is_timeout :: bool
  is_connection_error :: bool

text \<open>
  The outcome of the probe of lines 268-270: a response with its status code and the
  measured \<^verbatim>\<open>int((time.time() - start_time) * 1000)\<close>, or an exception.
\<close>

datatype probe_outcome =
    Response int int
  | Raised req_exception

text \<open>Lines 263-291: the classification of the probe outcome.\<close>

definition classify :: "probe_outcome \<Rightarrow> int \<times> int \<times> string" where
  "classify out =
     (case out of
        Response status_code ms \<Rightarrow>
          (if 200 \<le> status_code \<and> status_code < 500 then (100, ms, ''Healthy'')
           else (25, ms, ''HTTP '' @ str_int status_code))
      | Raised e \<Rightarrow>
          (if is_timeout e then (10, 5000, ''Connection timeout'')
           else if is_connection_error e then (0, 5000, ''Connection failed'')
           else (5, 5000, ''Request Error'')))"

text \<open>Lines 294-300: the cached statistics of the record, when the port is still there.\<close>

definition cache_stats :: "tunnels \<Rightarrow> string \<Rightarrow> int \<times> int \<times> string \<Rightarrow> tunnels" where
  "cache_stats s prt r =
     (case r of (h, pg, st) \<Rightarrow>
        AList.map_entry prt (\<lambda>d. d\<lparr>health := h, ping := pg, status_text := st\<rparr>) s)"

text \<open>
  \<open>poll\<close> is the value of \<^verbatim>\<open>process.poll()\<close>: \<open>None\<close> while the process runs, its
  return code once it has exited. \<open>cleanup\<close> is what the operating system answers to
  the \<^verbatim>\<open>terminate_tunnel\<close> of line 260.
\<close>

record stats_env =
  poll :: "int option"
  probe :: probe_outcome
  cleanup :: term_env

definition get_tunnel_stats ::
  "tunnels \<Rightarrow> string \<Rightarrow> stats_env \<Rightarrow> (int \<times> int \<times> string) \<times> tunnels \<times> action list" where
  "get_tunnel_stats s prt env =
     (case map_of s prt of
        None \<Rightarrow> ((0, 0, ''Tunnel not found''), s, [])
      | Some d \<Rightarrow>
          (case poll env of
             Some rc \<Rightarrow>
               (case terminate_tunnel s prt (cleanup env) of
                  (ok, s', acts) \<Rightarrow> ((0, 0, ''Process terminated''), s', acts))
           | None \<Rightarrow>
               (let r = classify (probe env)
                in (r, cache_stats s prt r, [HttpGet (public_url d)]))))"

text \<open>
  The table of the specification, row by row, for comparison with \<open>classify\<close>: it has
  no row for a response whose status is below 200.
\<close>

definition spec_probe_table :: "probe_outcome \<Rightarrow> (int \<times> int \<times> string) option" where
  "spec_probe_table out =
     (case out of
        Response status_code ms \<Rightarrow>
          (if 200 \<le> status_code \<and> status_code \<le> 499 then Some (100, ms, ''Healthy'')
           else if 500 \<le> status_code then Some (25, ms, ''HTTP '' @ str_int status_code)
           else None)
      | Raised e \<Rightarrow>
          (if is_timeout e then Some (10, 5000, ''Connection timeout'')
           else if is_connection_error e then Some (0, 5000, ''Connection failed'')
           else Some (5, 5000, ''Request Error'')))"

section \<open>\<^verbatim>\<open>create_tunnel\<close>\<close>

text \<open>
  \<^verbatim>\<open>log_appender\<close> (lines 79-86) on the pair of the local list \<^verbatim>\<open>logs\<close> and the map:
  the entry is appended to the local list and, when the port is in the map, to the log
  buffer of its record. \<open>now k\<close> is the value of
  \<^verbatim>\<open>datetime.now().strftime('%H:%M:%S')\<close> when the entry with index \<open>k\<close> of the local
  list is made.
\<close>

definition log_entry :: "string \<Rightarrow> string \<Rightarrow> string" where
  "log_entry stamp line = ''['' @ stamp @ ''] '' @ strip line"

text \<open>
  Lines 83-85:
  \<^verbatim>\<open>if port_str in self.active_tunnels: self.active_tunnels[port_str]['logs'].append(...)\<close>,
  for a list of entries.
\<close>

definition append_logs :: "string \<Rightarrow> string list \<Rightarrow> tunnels \<Rightarrow> tunnels" where
  "append_logs prt es s = AList.map_entry prt (\<lambda>d. d\<lparr>logs := logs d @ es\<rparr>) s"

definition log_appender ::
  "(nat \<Rightarrow> string) \<Rightarrow> string \<Rightarrow> string \<Rightarrow> string list \<times> tunnels \<Rightarrow> string list \<times> tunnels" where
  "log_appender now prt line st =
     (case st of (lg, s) \<Rightarrow>
        (let e = log_entry (now (length lg)) line
         in (lg @ [e], append_logs prt [e] s)))"

text \<open>
  The entries \<^verbatim>\<open>log_appender\<close> makes of the lines \<open>ls\<close> when the local list has
  \<open>k\<close> entries already: each line stripped and stamped with the time of its own call.
\<close>

fun stamped :: "(nat \<Rightarrow> string) \<Rightarrow> nat \<Rightarrow> string list \<Rightarrow> string list" where
  "stamped now k [] = []"
| "stamped now k (l # ls) = log_entry (now k) l # stamped now (Suc k) ls"

text \<open>
  The local list and the map after \<^verbatim>\<open>log_appender\<close> has been called on the lines
  \<open>ls\<close>, starting from the empty local list and the map \<open>s\<close>.
\<close>

definition logged ::
  "(nat \<Rightarrow> string) \<Rightarrow> string \<Rightarrow> string list \<Rightarrow> tunnels \<Rightarrow> string list \<times> tunnels" where
  "logged now prt ls s = (stamped now 0 ls, append_logs prt (stamped now 0 ls) s)"

text \<open>
  The output of the spawned process: the lines \<^verbatim>\<open>readline\<close> returns, each with the value
  of \<^verbatim>\<open>time.time() - start_time\<close> once the line has been read and logged (what line 126
  compares with 20), and what the next \<^verbatim>\<open>readline\<close> does after them: the stream is
  closed (\<^verbatim>\<open>readline\<close> returns the empty string), it stays open and silent
  (\<^verbatim>\<open>readline\<close> never returns), or \<^verbatim>\<open>readline\<close> raises an exception, such as the
  \<^verbatim>\<open>UnicodeDecodeError\<close> of a line that is not valid text.
\<close>

datatype stream_end = Closed | Silent | ReadError string

record proc_output =
  proc_pid :: nat
  out_lines :: "(string \<times> real) list"
  ending :: stream_end

datatype loop_exit = Found string | TimedOut | Exhausted | Blocked | Failed string

text \<open>
  The loop of lines 113-132. \<open>Failed e\<close> is the exception \<open>e\<close> leaving the loop for
  the handler of line 163.
\<close>

fun read_lines ::
  "(nat \<Rightarrow> string) \<Rightarrow> string \<Rightarrow> stream_end \<Rightarrow> (string \<times> real) list \<Rightarrow>
   string list \<times> tunnels \<Rightarrow> loop_exit \<times> string list \<times> tunnels" where
  "read_lines now prt en [] st =
     (case en of Closed \<Rightarrow> Exhausted | Silent \<Rightarrow> Blocked | ReadError e \<Rightarrow> Failed e, st)"
| "read_lines now prt en ((line, elapsed) # rest) st =
     (if line = [] then (Exhausted, st)
      else
        (let st1 = log_appender now prt line st in
         case re_search line of
           Some url \<Rightarrow> (Found url, log_appender now prt (''Public URL found: '' @ url) st1)
         | None \<Rightarrow>
             if elapsed > 20
             then (TimedOut, log_appender now prt ''Error: Timeout waiting for public URL.'' st1)
             else read_lines now prt en rest st1))"

text \<open>
  \<open>spawn\<close> is the result of \<^verbatim>\<open>subprocess.Popen\<close>: the text of the exception it
  raises, or the process with its output. \<open>reg_time\<close> is the \<^verbatim>\<open>time.time()\<close> of
  line 140.
\<close>

record create_env =
  cloudflared_path :: string
  now :: "nat \<Rightarrow> string"
  spawn :: "string + proc_output"
  reg_time :: real

text \<open>Line 90: the command line of the tunnelling client.\<close>

definition command :: "create_env \<Rightarrow> string \<Rightarrow> string list" where
  "command env prt = [cloudflared_path env, ''tunnel'', ''--url'', ''http://127.0.0.1:'' @ prt]"

text \<open>
  The handler of lines 163-165, for an exception \<open>e\<close> raised anywhere in the
  \<^verbatim>\<open>try\<close> block after the first log entry: by \<^verbatim>\<open>subprocess.Popen\<close>, or by
  \<^verbatim>\<open>readline\<close> once the process runs. The process is not asked to terminate.
\<close>

definition fatal_error ::
  "(nat \<Rightarrow> string) \<Rightarrow> string \<Rightarrow> string list \<Rightarrow> string \<Rightarrow> string list \<times> tunnels \<Rightarrow>
   ((bool \<times> string option \<times> string list) \<times> tunnels \<times> action list) option" where
  "fatal_error nw prt cmd e st =
     (case log_appender nw prt (''Fatal Error: '' @ e) st of
        (lg, s1) \<Rightarrow> Some ((False, None, [''Error: '' @ e]), s1, [Spawn cmd]))"

text \<open>
  The result is \<open>None\<close> when the call never returns (\<^verbatim>\<open>readline\<close> blocks for ever).
  The second component of a returned triple is the URL, \<open>None\<close> for Python's
  \<^verbatim>\<open>None\<close>.
\<close>

definition create_tunnel ::
  "tunnels \<Rightarrow> string \<Rightarrow> create_env \<Rightarrow>
   ((bool \<times> string option \<times> string list) \<times> tunnels \<times> action list) option" where
  "create_tunnel s prt env =
     (let cmd = command env prt;
          st0 = log_appender (now env) prt (''Executing command: '' @ join_space cmd) ([], s)
      in case spawn env of
           Inl e \<Rightarrow> fatal_error (now env) prt cmd e st0
         | Inr p \<Rightarrow>
             (case read_lines (now env) prt (ending p) (out_lines p) st0 of
                (Found url, lg, s1) \<Rightarrow>
                  Some ((True, Some url, lg),
                        AList.update prt
                          \<lparr>process = Popen (proc_pid p), public_url = url,
                           start_time = reg_time env, logs = lg, pid = proc_pid p,
                           status = ''active'', health = 100, ping = 0,
                           status_text = ''Active'', port = prt\<rparr> s1,
                        [Spawn cmd, MapAssign prt, StartLogReader prt])
              | (TimedOut, lg, s1) \<Rightarrow>
                  Some ((False, None, lg), s1, [Spawn cmd, Terminate (proc_pid p)])
              | (Exhausted, st1) \<Rightarrow>
                  (case log_appender (now env) prt
                          ''Error: Process terminated before URL was found.'' st1 of
                     (lg, s1) \<Rightarrow>
                       Some ((False, None, lg), s1, [Spawn cmd, Terminate (proc_pid p)]))
              | (Blocked, st1) \<Rightarrow> None
              | (Failed e, st1) \<Rightarrow> fatal_error (now env) prt cmd e st1))"

section \<open>The snapshot written to \<^verbatim>\<open>log.json\<close>\<close>

datatype json = JNull | JInt int | JStr string | JObj "(string \<times> json) list"

text \<open>
  The dictionary built for one record at lines 316-326. \<open>isoformat t\<close> is
  \<^verbatim>\<open>datetime.fromtimestamp(t).isoformat()\<close>; a start time of 0 is false in Python and
  gives \<^verbatim>\<open>None\<close>.
\<close>

definition snapshot_entry :: "(real \<Rightarrow> string) \<Rightarrow> string \<Rightarrow> tunnel \<Rightarrow> json" where
  "snapshot_entry isoformat prt d =
     JObj [(''port'', JStr prt),
           (''public_url'', JStr (public_url d)),
           (''status'', JStr (status d)),
           (''status_text'', JStr (status_text d)),
           (''health'', JInt (health d)),
           (''ping'', JInt (ping d)),
           (''pid'', JInt (int (pid d))),
           (''start_time'', if start_time d \<noteq> 0 then JStr (isoformat (start_time d)) else JNull)]"

text \<open>\<^verbatim>\<open>_snapshot_for_log\<close>: the loop over \<^verbatim>\<open>self.active_tunnels.items()\<close>.\<close>

definition snapshot_for_log :: "(real \<Rightarrow> string) \<Rightarrow> tunnels \<Rightarrow> (string \<times> json) list" where
  "snapshot_for_log isoformat s =
     foldl (\<lambda>snapshot (prt, d). AList.update prt (snapshot_entry isoformat prt d) snapshot) [] s"

text \<open>
  The payload of one round of \<^verbatim>\<open>_log_writer_loop\<close> (lines 343-347); \<open>generated\<close> is
  \<^verbatim>\<open>datetime.now().isoformat()\<close>.
\<close>

definition json_keys :: "json \<Rightarrow> string list" where
  "json_keys j = (case j of JObj kvs \<Rightarrow> map fst kvs | _ \<Rightarrow> [])"

definition log_payload :: "string \<Rightarrow> (real \<Rightarrow> string) \<Rightarrow> tunnels \<Rightarrow> json" where
  "log_payload generated isoformat s =
     JObj [(''generated_at'', JStr generated), (''tunnels'', JObj (snapshot_for_log isoformat s))]"

section \<open>Example inputs\<close>

definition demo_tunnel :: tunnel where
  "demo_tunnel =
     \<lparr>process = Popen 4242, public_url = ''https://abc-def.trycloudflare.com'',
      start_time = 1700000000, logs = [''[12:00:00] ready''], pid = 4242,
      status = ''active'', health = 100, ping = 0, status_text = ''Active'',
      port = ''5000''\<rparr>"

definition demo_tunnels :: tunnels where
  "demo_tunnels =
     [(''5000'', demo_tunnel),
      (''8080'', demo_tunnel\<lparr>process := Popen 77, pid := 77, port := ''8080''\<rparr>)]"

definition demo_term_env :: "string option \<Rightarrow> psutil_result \<Rightarrow> term_env" where
  "demo_term_env f r = \<lparr>fault = f, psutil = r\<rparr>"

definition demo_stats_env :: "int option \<Rightarrow> probe_outcome \<Rightarrow> stats_env" where
  "demo_stats_env pl out =
     \<lparr>poll = pl, probe = out, cleanup = demo_term_env None (Tree [4243] [4243])\<rparr>"

definition demo_create_env :: "string + proc_output \<Rightarrow> create_env" where
  "demo_create_env sp =
     \<lparr>cloudflared_path = ''cloudflared'', now = (\<lambda>k. ''12:00:0'' @ [digit k]),
      spawn = sp, reg_time = 1700000000\<rparr>"

declare str_nat.simps [simp del]

section \<open>Facts about the map\<close>

lemma map_fst_map_entry: "map fst (AList.map_entry k f xs) = map fst xs"
  by (induction xs) auto

lemma map_of_delete_same: "map_of (AList.delete k xs) k = None"
  by (simp add: AList.delete_conv')

lemma delete_not_in: "k \<notin> fst ` set (AList.delete k xs)"
  by (rule AList.delete_notin_dom)

section \<open>Facts about the pattern\<close>

lemma not_label_char_dot: "\<not> label_char CHR ''.''"
  by (simp add: label_char_def)

lemma match_here_complete:
  assumes "lab \<noteq> []" and "\<forall>c \<in> set lab. label_char c"
  shows "match_here (''https://'' @ lab @ ''.trycloudflare.com'' @ b) =
         Some (''https://'' @ lab @ ''.trycloudflare.com'')"
proof -
  have tw: "takeWhile label_char (lab @ CHR ''.'' # r) = lab" for r
    using assms(2) by (simp add: takeWhile_append2 not_label_char_dot)
  have dw: "dropWhile label_char (lab @ CHR ''.'' # r) = CHR ''.'' # r" for r
    using assms(2) by (simp add: dropWhile_append2 not_label_char_dot)
  show ?thesis
    using assms(1) by (simp add: match_here_def Let_def tw dw)
qed

lemma match_here_Some:
  assumes "match_here s = Some u"
  shows "\<exists>lab b. s = u @ b \<and> u = ''https://'' @ lab @ ''.trycloudflare.com'' \<and> lab \<noteq> [] \<and>
           (\<forall>c \<in> set lab. label_char c)"
proof -
  let ?r = "drop 8 s"
  let ?lab = "takeWhile label_char ?r"
  let ?r' = "dropWhile label_char ?r"
  from assms have p: "take 8 s = ''https://''" and lab: "?lab \<noteq> []"
    and suf: "take 18 ?r' = ''.trycloudflare.com''"
    and u: "u = ''https://'' @ ?lab @ ''.trycloudflare.com''"
    by (auto simp add: match_here_def Let_def split: if_splits)
  have "s = take 8 s @ ?r" by simp
  also have "?r = ?lab @ ?r'" by simp
  also have "?r' = take 18 ?r' @ drop 18 ?r'" by simp
  finally have "s = u @ drop 18 ?r'" unfolding u p suf by simp
  moreover have "\<forall>c \<in> set ?lab. label_char c" by (auto dest: set_takeWhileD)
  ultimately show ?thesis using lab u by blast
qed

lemma match_here_url_at: "match_here s = Some u \<longleftrightarrow> url_at s 0 u"
proof
  assume "match_here s = Some u"
  from match_here_Some [OF this] show "url_at s 0 u"
    unfolding url_at_def by (metis append_Nil list.size(3))
next
  assume "url_at s 0 u"
  then obtain lab b where "s = u @ b" "u = ''https://'' @ lab @ ''.trycloudflare.com''"
    "lab \<noteq> []" "\<forall>c \<in> set lab. label_char c"
    unfolding url_at_def by auto
  then show "match_here s = Some u"
    using match_here_complete [of lab b] by simp
qed

lemma url_at_Nil: "\<not> url_at [] k u"
  by (auto simp add: url_at_def)

lemma url_at_Cons_Suc: "url_at (c # cs) (Suc k) u \<longleftrightarrow> url_at cs k u"
proof
  assume "url_at (c # cs) (Suc k) u"
  then obtain a lab b where h: "c # cs = a @ u @ b" "length a = Suc k"
    "u = ''https://'' @ lab @ ''.trycloudflare.com''" "lab \<noteq> []" "\<forall>c \<in> set lab. label_char c"
    unfolding url_at_def by blast
  from h(2) obtain a' where a: "a = c # a'" "length a' = k"
    using h(1) by (cases a) auto
  with h(1) have "cs = a' @ u @ b" by simp
  with a h(3-5) show "url_at cs k u" unfolding url_at_def by blast
next
  assume "url_at cs k u"
  then obtain a lab b where h: "cs = a @ u @ b" "length a = k"
    "u = ''https://'' @ lab @ ''.trycloudflare.com''" "lab \<noteq> []" "\<forall>c \<in> set lab. label_char c"
    unfolding url_at_def by blast
  then have "c # cs = (c # a) @ u @ b" "length (c # a) = Suc k" by simp_all
  with h(3-5) show "url_at (c # cs) (Suc k) u" unfolding url_at_def by blast
qed

text \<open>
  \<open>re_search\<close> finds a text of the pattern whenever the line has one, and what it
  returns is the text at the leftmost position where one stands.
\<close>

lemma re_search_leftmost:
  assumes "url_at l k u" and "\<forall>j u'. url_at l j u' \<longrightarrow> k \<le> j"
  shows "re_search l = Some u"
  using assms
proof (induction l arbitrary: k)
  case Nil
  then show ?case by (simp add: url_at_Nil)
next
  case (Cons c cs)
  show ?case
  proof (cases k)
    case 0
    with Cons.prems(1) have "match_here (c # cs) = Some u"
      by (simp add: match_here_url_at)
    then show ?thesis by simp
  next
    case (Suc k')
    have "match_here (c # cs) = None"
    proof (rule ccontr)
      assume "match_here (c # cs) \<noteq> None"
      then obtain v where "url_at (c # cs) 0 v"
        by (auto simp add: match_here_url_at)
      with Cons.prems(2) Suc show False by auto
    qed
    moreover have "url_at cs k' u"
      using Cons.prems(1) Suc by (simp add: url_at_Cons_Suc)
    moreover have "\<forall>j u'. url_at cs j u' \<longrightarrow> k' \<le> j"
    proof (intro allI impI)
      fix j u'
      assume "url_at cs j u'"
      then have "url_at (c # cs) (Suc j) u'" by (simp add: url_at_Cons_Suc)
      with Cons.prems(2) Suc show "k' \<le> j" by auto
    qed
    ultimately show ?thesis
      using Cons.IH [of k'] by simp
  qed
qed

lemma re_search_Some:
  assumes "re_search l = Some u"
  shows "\<exists>k. url_at l k u \<and> (\<forall>j u'. url_at l j u' \<longrightarrow> k \<le> j)"
  using assms
proof (induction l)
  case Nil
  then show ?case by simp
next
  case (Cons c cs)
  show ?case
  proof (cases "match_here (c # cs)")
    case (Some v)
    with Cons.prems have "v = u" by simp
    with Some have "url_at (c # cs) 0 u" by (simp add: match_here_url_at)
    then show ?thesis by blast
  next
    case None
    with Cons.prems have "re_search cs = Some u" by simp
    from Cons.IH [OF this] obtain k where
      k: "url_at cs k u" "\<forall>j u'. url_at cs j u' \<longrightarrow> k \<le> j"
      by blast
    have "\<forall>j u'. url_at (c # cs) j u' \<longrightarrow> Suc k \<le> j"
    proof (intro allI impI)
      fix j u'
      assume a: "url_at (c # cs) j u'"
      show "Suc k \<le> j"
      proof (cases j)
        case 0
        with a have "match_here (c # cs) = Some u'" by (simp add: match_here_url_at)
        with None show ?thesis by simp
      next
        case (Suc j')
        with a have "url_at cs j' u'" by (simp add: url_at_Cons_Suc)
        with k(2) have "k \<le> j'" by blast
        with Suc show ?thesis by simp
      qed
    qed
    moreover have "url_at (c # cs) (Suc k) u"
      using k(1) by (simp add: url_at_Cons_Suc)
    ultimately show ?thesis by blast
  qed
qed

lemma re_search_None: "re_search l = None \<longleftrightarrow> (\<forall>k u. \<not> url_at l k u)"
proof
  assume n: "re_search l = None"
  show "\<forall>k u. \<not> url_at l k u"
  proof (intro allI notI)
    fix k u
    assume "url_at l k u"
    then have "re_search l \<noteq> None"
    proof (induction l arbitrary: k)
      case Nil
      then show ?case by (simp add: url_at_Nil)
    next
      case (Cons c cs)
      show ?case
      proof (cases "match_here (c # cs)")
        case (Some v)
        then show ?thesis by simp
      next
        case None
        have "k \<noteq> 0"
        proof
          assume "k = 0"
          with Cons.prems have "match_here (c # cs) = Some u"
            by (simp add: match_here_url_at)
          with None show False by simp
        qed
        then obtain k' where "k = Suc k'" by (cases k) auto
        with Cons.prems have "url_at cs k' u" by (simp add: url_at_Cons_Suc)
        from Cons.IH [OF this] None show ?thesis by simp
      qed
    qed
    with n show False by simp
  qed
next
  assume "\<forall>k u. \<not> url_at l k u"
  then show "re_search l = None"
    using re_search_Some [of l] by (cases "re_search l") auto
qed

section \<open>Facts about \<^verbatim>\<open>create_tunnel\<close>\<close>

lemma append_logs_Nil: "append_logs prt [] s = s"
  by (induction s) (auto simp: append_logs_def)

lemma append_logs_append: "append_logs prt b (append_logs prt a s) = append_logs prt (a @ b) s"
  by (induction s) (auto simp: append_logs_def)

lemma map_fst_append_logs: "map fst (append_logs prt es s) = map fst s"
  by (induction s) (auto simp: append_logs_def)

lemma map_of_append_logs_other: "q \<noteq> prt \<Longrightarrow> map_of (append_logs prt es s) q = map_of s q"
  by (simp add: append_logs_def AList.map_of_map_entry)

lemma append_logs_absent: "map_of s prt = None \<Longrightarrow> append_logs prt es s = s"
  by (induction s) (auto simp: append_logs_def)

lemma length_stamped: "length (stamped nw k ls) = length ls"
  by (induction ls arbitrary: k) auto

lemma stamped_append: "stamped nw k (a @ b) = stamped nw k a @ stamped nw (k + length a) b"
  by (induction a arbitrary: k) auto

lemma log_appender_logged: "log_appender nw prt l (logged nw prt xs s) = logged nw prt (xs @ [l]) s"
  by (simp add: log_appender_def logged_def Let_def length_stamped stamped_append append_logs_append)

lemma logged_Nil: "([], s) = logged nw prt [] s"
  by (simp add: logged_def append_logs_Nil)

lemma read_lines_skip:
  assumes "\<forall>(l, t) \<in> set pre. l \<noteq> [] \<and> re_search l = None \<and> t \<le> 20"
  shows "read_lines nw prt en (pre @ rest) (logged nw prt xs s) =
         read_lines nw prt en rest (logged nw prt (xs @ map fst pre) s)"
  using assms
proof (induction pre arbitrary: xs)
  case Nil
  then show ?case by simp
next
  case (Cons a pre)
  obtain l t where a: "a = (l, t)" by (cases a)
  from Cons.prems a have l: "l \<noteq> []" "re_search l = None" "\<not> t > 20" by auto
  from Cons.prems have rest: "\<forall>(l, t) \<in> set pre. l \<noteq> [] \<and> re_search l = None \<and> t \<le> 20" by simp
  show ?case
    using l Cons.IH [OF rest, of "xs @ [l]"]
    by (simp add: a log_appender_logged)
qed

lemma read_lines_found:
  assumes "\<forall>(l, t) \<in> set pre. l \<noteq> [] \<and> re_search l = None \<and> t \<le> 20"
    and "re_search l = Some url"
  shows "read_lines nw prt en (pre @ (l, t) # rest) (logged nw prt xs s) =
         (Found url, logged nw prt (xs @ map fst pre @ [l, ''Public URL found: '' @ url]) s)"
proof -
  from assms(2) have "l \<noteq> []" by auto
  then show ?thesis
    using assms(2) by (simp add: read_lines_skip [OF assms(1)] log_appender_logged)
qed

lemma read_lines_timeout:
  assumes "\<forall>(l, t) \<in> set pre. l \<noteq> [] \<and> re_search l = None \<and> t \<le> 20"
    and "l \<noteq> []" and "re_search l = None" and "t > 20"
  shows "read_lines nw prt en (pre @ (l, t) # rest) (logged nw prt xs s) =
         (TimedOut, logged nw prt (xs @ map fst pre @ [l, ''Error: Timeout waiting for public URL.'']) s)"
  using assms(2-4) by (simp add: read_lines_skip [OF assms(1)] log_appender_logged)

lemma read_lines_closed:
  assumes "\<forall>(l, t) \<in> set pre. l \<noteq> [] \<and> re_search l = None \<and> t \<le> 20"
    and "rest = [] \<and> en = Closed \<or> (\<exists>t r. rest = ([], t) # r)"
  shows "read_lines nw prt en (pre @ rest) (logged nw prt xs s) =
         (Exhausted, logged nw prt (xs @ map fst pre) s)"
  using assms(2) by (auto simp add: read_lines_skip [OF assms(1)])

lemma read_lines_blocked:
  assumes "\<forall>(l, t) \<in> set pre. l \<noteq> [] \<and> re_search l = None \<and> t \<le> 20"
  shows "read_lines nw prt Silent pre (logged nw prt xs s) =
         (Blocked, logged nw prt (xs @ map fst pre) s)"
  using read_lines_skip [OF assms, of nw prt Silent "[]" xs s] by simp

lemma read_lines_failed:
  assumes "\<forall>(l, t) \<in> set pre. l \<noteq> [] \<and> re_search l = None \<and> t \<le> 20"
  shows "read_lines nw prt (ReadError e) pre (logged nw prt xs s) =
         (Failed e, logged nw prt (xs @ map fst pre) s)"
  using read_lines_skip [OF assms, of nw prt "ReadError e" "[]" xs s] by simp

lemma create_tunnel_found:
  assumes "spawn env = Inr p" and "out_lines p = pre @ (l, t) # rest"
    and "\<forall>(l, t) \<in> set pre. l \<noteq> [] \<and> re_search l = None \<and> t \<le> 20"
    and "re_search l = Some url"
  shows "create_tunnel s prt env =
     (let lg = stamped (now env) 0
                 ((''Executing command: '' @ join_space (command env prt)) # map fst pre @
                  [l, ''Public URL found: '' @ url])
      in Some ((True, Some url, lg),
            AList.update prt
              \<lparr>process = Popen (proc_pid p), public_url = url,
               start_time = reg_time env, logs = lg, pid = proc_pid p,
               status = ''active'', health = 100, ping = 0,
               status_text = ''Active'', port = prt\<rparr> (append_logs prt lg s),
            [Spawn (command env prt), MapAssign prt, StartLogReader prt]))"
  using assms(1,2)
  by (simp add: create_tunnel_def fatal_error_def Let_def logged_Nil [of s "now env" prt] log_appender_logged
      read_lines_found [OF assms(3,4)]) (simp add: logged_def)

lemma create_tunnel_timeout:
  assumes "spawn env = Inr p" and "out_lines p = pre @ (l, t) # rest"
    and "\<forall>(l, t) \<in> set pre. l \<noteq> [] \<and> re_search l = None \<and> t \<le> 20"
    and "l \<noteq> []" and "re_search l = None" and "t > 20"
  shows "create_tunnel s prt env =
     (let lg = stamped (now env) 0
                 ((''Executing command: '' @ join_space (command env prt)) # map fst pre @
                  [l, ''Error: Timeout waiting for public URL.''])
      in Some ((False, None, lg), append_logs prt lg s,
            [Spawn (command env prt), Terminate (proc_pid p)]))"
  using assms(1,2)
  by (simp add: create_tunnel_def fatal_error_def Let_def logged_Nil [of s "now env" prt] log_appender_logged
      read_lines_timeout [OF assms(3-6)]) (simp add: logged_def)

lemma create_tunnel_closed:
  assumes "spawn env = Inr p" and "out_lines p = pre @ rest"
    and "\<forall>(l, t) \<in> set pre. l \<noteq> [] \<and> re_search l = None \<and> t \<le> 20"
    and "rest = [] \<and> ending p = Closed \<or> (\<exists>t r. rest = ([], t) # r)"
  shows "create_tunnel s prt env =
     (let lg = stamped (now env) 0
                 ((''Executing command: '' @ join_space (command env prt)) # map fst pre @
                  [''Error: Process terminated before URL was found.''])
      in Some ((False, None, lg), append_logs prt lg s,
            [Spawn (command env prt), Terminate (proc_pid p)]))"
  using assms(1,2)
  by (simp add: create_tunnel_def fatal_error_def Let_def logged_Nil [of s "now env" prt] log_appender_logged
      read_lines_closed [OF assms(3,4)]) (simp add: logged_def)

lemma create_tunnel_spawn_error:
  assumes "spawn env = Inl e"
  shows "create_tunnel s prt env =
     Some ((False, None, [''Error: '' @ e]),
           append_logs prt (stamped (now env) 0 [''Executing command: '' @ join_space (command env prt), ''Fatal Error: '' @ e]) s,
           [Spawn (command env prt)])"
  using assms
  by (simp add: create_tunnel_def fatal_error_def Let_def logged_Nil [of s "now env" prt] log_appender_logged)
     (simp add: logged_def)

lemma create_tunnel_blocked:
  assumes "spawn env = Inr p" and "ending p = Silent"
    and "\<forall>(l, t) \<in> set (out_lines p). l \<noteq> [] \<and> re_search l = None \<and> t \<le> 20"
  shows "create_tunnel s prt env = None"
  using assms(1,2)
  by (simp add: create_tunnel_def fatal_error_def Let_def logged_Nil [of s "now env" prt] log_appender_logged
      read_lines_blocked [OF assms(3)])

lemma create_tunnel_read_error:
  assumes "spawn env = Inr p" and "ending p = ReadError e"
    and "\<forall>(l, t) \<in> set (out_lines p). l \<noteq> [] \<and> re_search l = None \<and> t \<le> 20"
  shows "create_tunnel s prt env =
     Some ((False, None, [''Error: '' @ e]),
           append_logs prt
             (stamped (now env) 0
                ((''Executing command: '' @ join_space (command env prt)) #
                 map fst (out_lines p) @ [''Fatal Error: '' @ e])) s,
           [Spawn (command env prt)])"
  using assms(1,2)
  by (simp add: create_tunnel_def fatal_error_def Let_def logged_Nil [of s "now env" prt]
      log_appender_logged read_lines_failed [OF assms(3)])
     (simp add: logged_def)

section \<open>Claims about \<^verbatim>\<open>get_tunnel_stats\<close> and \<^verbatim>\<open>terminate_tunnel\<close>\<close>

text \<open>
  C3. For a port that is not in the live map, \<^verbatim>\<open>get_tunnel_stats\<close> returns exactly
  \<open>(0, 0, "Tunnel not found")\<close> as an ordinary result, leaves the map as it is and
  does nothing else.
\<close>

theorem get_tunnel_stats_unknown_port:
  assumes "map_of s prt = None"
  shows "get_tunnel_stats s prt env = ((0, 0, ''Tunnel not found''), s, [])"
  using assms by (simp add: get_tunnel_stats_def)

theorem get_tunnel_stats_unknown_port_witness:
  "map_of demo_tunnels ''9000'' = None \<and>
   get_tunnel_stats demo_tunnels ''9000'' (demo_stats_env None (Response 200 35)) =
     ((0, 0, ''Tunnel not found''), demo_tunnels, [])"
proof -
  have h: "map_of demo_tunnels ''9000'' = None"
    by (simp add: demo_tunnels_def)
  from h get_tunnel_stats_unknown_port [OF h] show ?thesis by blast
qed

text \<open>
  C4. For a port whose record is in the live map and whose process has exited
  (\<^verbatim>\<open>poll()\<close> reports a return code), \<^verbatim>\<open>get_tunnel_stats\<close> returns exactly
  \<open>(0, 0, "Process terminated")\<close>; its effect on the map and on the outside world is
  that of \<^verbatim>\<open>terminate_tunnel\<close> on that port; afterwards the port is absent from the
  map, and a following \<^verbatim>\<open>get_tunnel_stats\<close> for it returns the not-found result.
\<close>

theorem get_tunnel_stats_dead_process:
  assumes "map_of s prt = Some d" and "poll env = Some rc"
  shows "fst (get_tunnel_stats s prt env) = (0, 0, ''Process terminated'') \<and>
         snd (get_tunnel_stats s prt env) = snd (terminate_tunnel s prt (cleanup env)) \<and>
         map_of (fst (snd (get_tunnel_stats s prt env))) prt = None \<and>
         get_tunnel_stats (fst (snd (get_tunnel_stats s prt env))) prt env' =
           ((0, 0, ''Tunnel not found''), fst (snd (get_tunnel_stats s prt env)), [])"
proof -
  have t: "snd (terminate_tunnel s prt (cleanup env)) =
        (AList.delete prt s,
         MapRemove prt #
         (if fault (cleanup env) = None then teardown d (psutil (cleanup env)) else []))"
    using assms(1)
    by (cases "fault (cleanup env)")
       (simp_all add: terminate_tunnel_def ensure_removed_def delete_not_in)
  have g: "get_tunnel_stats s prt env =
        ((0, 0, ''Process terminated''), snd (terminate_tunnel s prt (cleanup env)))"
    using assms by (simp add: get_tunnel_stats_def split: prod.splits)
  show ?thesis
    unfolding g by (simp add: t get_tunnel_stats_def map_of_delete_same)
qed

theorem get_tunnel_stats_dead_process_witness:
  "map_of demo_tunnels ''5000'' = Some demo_tunnel \<and>
   poll (demo_stats_env (Some 1) (Response 200 35)) = Some 1 \<and>
   get_tunnel_stats demo_tunnels ''5000'' (demo_stats_env (Some 1) (Response 200 35)) =
     ((0, 0, ''Process terminated''),
      [(''8080'', demo_tunnel\<lparr>process := Popen 77, pid := 77, port := ''8080''\<rparr>)],
      [MapRemove ''5000'', Terminate 4243, Terminate 4242, WaitProcs [4242, 4243],
       Kill 4243, Wait 4242]) \<and>
   map_of (fst (snd (get_tunnel_stats demo_tunnels ''5000''
     (demo_stats_env (Some 1) (Response 200 35))))) ''5000'' = None"
proof -
  have h1: "map_of demo_tunnels ''5000'' = Some demo_tunnel"
    by (simp add: demo_tunnels_def)
  have h2: "poll (demo_stats_env (Some 1) (Response 200 35)) = Some 1"
    by (simp add: demo_stats_env_def)
  have r: "terminate_tunnel demo_tunnels ''5000'' (cleanup (demo_stats_env (Some 1) (Response 200 35))) =
     (True, [(''8080'', demo_tunnel\<lparr>process := Popen 77, pid := 77, port := ''8080''\<rparr>)],
      [MapRemove ''5000'', Terminate 4243, Terminate 4242, WaitProcs [4242, 4243],
       Kill 4243, Wait 4242])"
    by (simp add: terminate_tunnel_def demo_tunnels_def demo_stats_env_def demo_term_env_def
        teardown_def demo_tunnel_def)
  from get_tunnel_stats_dead_process [OF h1 h2, of "demo_stats_env None (Response 200 35)"] h1 h2 r
  show ?thesis by (simp add: prod_eq_iff)
qed

text \<open>
  C5. For a port that is in the live map, \<^verbatim>\<open>terminate_tunnel\<close> removes the record
  before anything else: the removal is the first action, every action of the teardown
  comes after it, and on every path (the teardown as planned, the enumeration of the
  process tree failing, an unexpected internal error with result \<open>False\<close>) the map
  returned is the old map without the port.
\<close>

theorem terminate_tunnel_removes_first:
  assumes "map_of s prt = Some d"
  shows "terminate_tunnel s prt env =
           (fault env = None, AList.delete prt s,
            MapRemove prt # (if fault env = None then teardown d (psutil env) else []))
         \<and> map_of (AList.delete prt s) prt = None
         \<and> MapRemove prt \<notin> set (teardown d (psutil env))"
  using assms
  by (cases "fault env"; cases "psutil env")
     (auto simp add: terminate_tunnel_def ensure_removed_def map_of_delete_same delete_not_in
        teardown_def)

theorem terminate_tunnel_removes_first_witness:
  "map_of demo_tunnels ''5000'' = Some demo_tunnel \<and>
   terminate_tunnel demo_tunnels ''5000'' (demo_term_env None (PsutilError ''access denied'')) =
     (True, [(''8080'', demo_tunnel\<lparr>process := Popen 77, pid := 77, port := ''8080''\<rparr>)],
      [MapRemove ''5000'', Terminate 4242, Wait 4242]) \<and>
   terminate_tunnel demo_tunnels ''5000'' (demo_term_env (Some ''closed file'') NoSuchProcess) =
     (False, [(''8080'', demo_tunnel\<lparr>process := Popen 77, pid := 77, port := ''8080''\<rparr>)],
      [MapRemove ''5000''])"
proof -
  have h: "map_of demo_tunnels ''5000'' = Some demo_tunnel"
    by (simp add: demo_tunnels_def)
  have d: "AList.delete ''5000'' demo_tunnels =
      [(''8080'', demo_tunnel\<lparr>process := Popen 77, pid := 77, port := ''8080''\<rparr>)]"
    by (simp add: demo_tunnels_def)
  from terminate_tunnel_removes_first [OF h, of "demo_term_env None (PsutilError ''access denied'')"]
    terminate_tunnel_removes_first [OF h, of "demo_term_env (Some ''closed file'') NoSuchProcess"]
    h d
  show ?thesis by (simp add: demo_term_env_def teardown_def demo_tunnel_def)
qed

text \<open>
  C6. \<^verbatim>\<open>terminate_tunnel\<close> on a port that is not in the live map returns \<open>False\<close>
  as an ordinary result and changes nothing; when a first call on a port of the map
  succeeds, it returns \<open>True\<close> and the second call on the same port returns \<open>False\<close>.
\<close>

theorem terminate_tunnel_twice:
  "(map_of s prt = None \<longrightarrow> terminate_tunnel s prt env = (False, s, [])) \<and>
   (map_of s prt \<noteq> None \<and> fault env = None \<longrightarrow>
      fst (terminate_tunnel s prt env) = True \<and>
      terminate_tunnel (fst (snd (terminate_tunnel s prt env))) prt env' =
        (False, fst (snd (terminate_tunnel s prt env)), []))"
  by (auto simp add: terminate_tunnel_def map_of_delete_same)

theorem terminate_tunnel_twice_witness:
  "map_of demo_tunnels ''9000'' = None \<and>
   terminate_tunnel demo_tunnels ''9000'' (demo_term_env None NoSuchProcess) =
     (False, demo_tunnels, []) \<and>
   map_of demo_tunnels ''8080'' \<noteq> None \<and>
   fault (demo_term_env None NoSuchProcess) = None \<and>
   fst (terminate_tunnel demo_tunnels ''8080'' (demo_term_env None NoSuchProcess)) = True \<and>
   terminate_tunnel
     (fst (snd (terminate_tunnel demo_tunnels ''8080'' (demo_term_env None NoSuchProcess))))
     ''8080'' (demo_term_env None (Tree [] [])) =
     (False, fst (snd (terminate_tunnel demo_tunnels ''8080'' (demo_term_env None NoSuchProcess))), [])"
proof -
  have h1: "map_of demo_tunnels ''9000'' = None"
    by (simp add: demo_tunnels_def)
  have h2: "map_of demo_tunnels ''8080'' \<noteq> None"
    by (simp add: demo_tunnels_def)
  have h3: "fault (demo_term_env None NoSuchProcess) = None"
    by (simp add: demo_term_env_def)
  from terminate_tunnel_twice [of demo_tunnels "''9000''" "demo_term_env None NoSuchProcess"]
    terminate_tunnel_twice [of demo_tunnels "''8080''" "demo_term_env None NoSuchProcess"
      "demo_term_env None (Tree [] [])"] h1 h2 h3
  show ?thesis by blast
qed

text \<open>
  C10. For a port whose record is in the live map and whose process runs, the probe of
  \<^verbatim>\<open>get_tunnel_stats\<close> changes only the fields \<open>health\<close>, \<open>ping\<close> and
  \<open>status_text\<close> of that record, to the values it returns: the other seven fields of
  the record, the records of all other ports and the order of the ports stay as they
  were.
\<close>

theorem get_tunnel_stats_frame:
  assumes "map_of s prt = Some d" and "poll env = None"
  shows "\<exists>h pg st s' d'.
           get_tunnel_stats s prt env = ((h, pg, st), s', [HttpGet (public_url d)]) \<and>
           map_of s' prt = Some d' \<and>
           health d' = h \<and> ping d' = pg \<and> status_text d' = st \<and>
           port d' = port d \<and> public_url d' = public_url d \<and> pid d' = pid d \<and>
           start_time d' = start_time d \<and> status d' = status d \<and>
           process d' = process d \<and> logs d' = logs d \<and>
           (\<forall>q. q \<noteq> prt \<longrightarrow> map_of s' q = map_of s q) \<and>
           map fst s' = map fst s"
  using assms
  by (cases "classify (probe env)")
     (simp add: get_tunnel_stats_def cache_stats_def AList.map_of_map_entry map_fst_map_entry)

theorem get_tunnel_stats_frame_witness:
  "map_of demo_tunnels ''8080'' = Some (demo_tunnel\<lparr>process := Popen 77, pid := 77, port := ''8080''\<rparr>) \<and>
   poll (demo_stats_env None (Raised \<lparr>is_timeout = True, is_connection_error = True\<rparr>)) = None \<and>
   get_tunnel_stats demo_tunnels ''8080''
       (demo_stats_env None (Raised \<lparr>is_timeout = True, is_connection_error = True\<rparr>)) =
     ((10, 5000, ''Connection timeout''),
      [(''5000'', demo_tunnel),
       (''8080'', demo_tunnel\<lparr>process := Popen 77, pid := 77, port := ''8080'',
           health := 10, ping := 5000, status_text := ''Connection timeout''\<rparr>)],
      [HttpGet ''https://abc-def.trycloudflare.com''])"
proof -
  have h1: "map_of demo_tunnels ''8080'' =
      Some (demo_tunnel\<lparr>process := Popen 77, pid := 77, port := ''8080''\<rparr>)"
    by (simp add: demo_tunnels_def)
  have h2: "poll (demo_stats_env None (Raised \<lparr>is_timeout = True, is_connection_error = True\<rparr>)) = None"
    by (simp add: demo_stats_env_def)
  from get_tunnel_stats_frame [OF h1 h2] h1 h2
  show ?thesis
    by (simp add: get_tunnel_stats_def demo_tunnels_def demo_stats_env_def classify_def
        cache_stats_def demo_tunnel_def Let_def)
qed

text \<open>
  C1, as the code has it. For a port whose record is in the live map and whose process
  runs, \<^verbatim>\<open>get_tunnel_stats\<close> issues exactly one HTTP GET on the public URL and returns:
  \<open>(100, ms, "Healthy")\<close> for a response with status 200 to 499;
  \<open>(25, ms, "HTTP <code>")\<close> for a response with any other status, below 200 as well
  as 500 and above; \<open>(10, 5000, "Connection timeout")\<close> for a timeout;
  \<open>(0, 5000, "Connection failed")\<close> for a connection error that is not a timeout;
  \<open>(5, 5000, "Request Error")\<close> for any other exception. There is no other result.
\<close>

theorem get_tunnel_stats_probe_classification:
  assumes "map_of s prt = Some d" and "poll env = None"
  shows "fst (get_tunnel_stats s prt env) =
           (case probe env of
              Response code ms \<Rightarrow>
                if 200 \<le> code \<and> code \<le> 499 then (100, ms, ''Healthy'')
                else (25, ms, ''HTTP '' @ str_int code)
            | Raised e \<Rightarrow>
                if is_timeout e then (10, 5000, ''Connection timeout'')
                else if is_connection_error e then (0, 5000, ''Connection failed'')
                else (5, 5000, ''Request Error'')) \<and>
         snd (snd (get_tunnel_stats s prt env)) = [HttpGet (public_url d)]"
  using assms
  by (auto simp add: get_tunnel_stats_def classify_def Let_def split: probe_outcome.splits)

theorem get_tunnel_stats_probe_classification_witness:
  "map_of demo_tunnels ''5000'' = Some demo_tunnel \<and>
   poll (demo_stats_env None (Response 503 35)) = None \<and>
   fst (get_tunnel_stats demo_tunnels ''5000'' (demo_stats_env None (Response 503 35))) =
     (25, 35, ''HTTP 503'') \<and>
   snd (snd (get_tunnel_stats demo_tunnels ''5000'' (demo_stats_env None (Response 503 35)))) =
     [HttpGet ''https://abc-def.trycloudflare.com'']"
proof -
  have h1: "map_of demo_tunnels ''5000'' = Some demo_tunnel"
    by (simp add: demo_tunnels_def)
  have h2: "poll (demo_stats_env None (Response 503 35)) = None"
    by (simp add: demo_stats_env_def)
  have p: "probe (demo_stats_env None (Response 503 35)) = Response 503 35"
    by (simp add: demo_stats_env_def)
  have c: "str_int 503 = ''503''"
    by (simp add: str_int_def str_nat.simps digit_def)
  from get_tunnel_stats_probe_classification [OF h1 h2] h1 h2
  show ?thesis by (simp add: p c demo_tunnel_def)
qed

text \<open>
  C1 as the specification states it fails: a response with status 101 is classified
  \<open>(25, 42, "HTTP 101")\<close>, and the table of the specification has no row for it.
\<close>

theorem get_tunnel_stats_probe_table_counterexample:
  "map_of demo_tunnels ''5000'' = Some demo_tunnel \<and>
   poll (demo_stats_env None (Response 101 42)) = None \<and>
   fst (get_tunnel_stats demo_tunnels ''5000'' (demo_stats_env None (Response 101 42))) =
     (25, 42, ''HTTP 101'') \<and>
   spec_probe_table (Response 101 42) = None"
  by (simp add: get_tunnel_stats_def demo_tunnels_def demo_stats_env_def classify_def
      spec_probe_table_def str_int_def str_nat.simps digit_def Let_def cache_stats_def)

lemmas create_tunnel_eval =
  create_tunnel_def fatal_error_def command_def log_appender_def log_entry_def strip_def
  is_space_def append_logs_def demo_create_env_def digit_def match_here_def label_char_def
  Let_def

lemma no_url_lines:
  assumes "\<forall>(l', t') \<in> set pre. l' \<noteq> [] \<and> (\<forall>j u'. \<not> url_at l' j u') \<and> t' \<le> 20"
  shows "\<forall>(l', t') \<in> set pre. l' \<noteq> [] \<and> re_search l' = None \<and> t' \<le> 20"
  using assms by (auto simp add: re_search_None)

section \<open>Claims about \<^verbatim>\<open>create_tunnel\<close>\<close>

text \<open>
  C7. Let the output of the spawned process have a line \<open>l\<close> in which a text of the
  pattern of the public URL stands (\<^verbatim>\<open>https://\<close>, a non-empty label of letters, digits
  and hyphens, \<^verbatim>\<open>.trycloudflare.com\<close>), after lines that hold no such text, are not
  the end of the stream and were each handled within 20 seconds. Then
  \<^verbatim>\<open>create_tunnel\<close> returns \<open>(True, url, logs)\<close>, where \<open>url\<close> is the text of the
  pattern at the leftmost position of \<open>l\<close> where one stands, and there is only one
  such text. The map then holds for the port a record with status \<open>active\<close>, status
  text \<open>Active\<close>, health 100, ping 0, that URL and the pid of the process; the records
  of the other ports are as before.
\<close>

theorem create_tunnel_success:
  assumes "spawn env = Inr p" and "out_lines p = pre @ (l, t) # rest"
    and "\<forall>(l', t') \<in> set pre. l' \<noteq> [] \<and> (\<forall>j u'. \<not> url_at l' j u') \<and> t' \<le> 20"
    and "url_at l k0 u0"
  shows "\<exists>url k lg s'.
           url_at l k url \<and> (\<forall>j u'. url_at l j u' \<longrightarrow> k \<le> j) \<and>
           (\<forall>k' u''. url_at l k' u'' \<and> (\<forall>j u'. url_at l j u' \<longrightarrow> k' \<le> j) \<longrightarrow> u'' = url) \<and>
           create_tunnel s prt env =
             Some ((True, Some url, lg), s',
                   [Spawn (command env prt), MapAssign prt, StartLogReader prt]) \<and>
           lg = stamped (now env) 0
                  ((''Executing command: '' @ join_space (command env prt)) # map fst pre @
                   [l, ''Public URL found: '' @ url]) \<and>
           map_of s' prt =
             Some \<lparr>process = Popen (proc_pid p), public_url = url,
                   start_time = reg_time env, logs = lg, pid = proc_pid p,
                   status = ''active'', health = 100, ping = 0,
                   status_text = ''Active'', port = prt\<rparr> \<and>
           (\<forall>q. q \<noteq> prt \<longrightarrow> map_of s' q = map_of s q)"
proof -
  from assms(4) have "re_search l \<noteq> None"
    by (auto simp add: re_search_None)
  then obtain url where r: "re_search l = Some url" by auto
  from re_search_Some [OF r] obtain k where
    k: "url_at l k url" "\<forall>j u'. url_at l j u' \<longrightarrow> k \<le> j"
    by blast
  have u: "\<forall>k' u''. url_at l k' u'' \<and> (\<forall>j u'. url_at l j u' \<longrightarrow> k' \<le> j) \<longrightarrow> u'' = url"
  proof (intro allI impI)
    fix k' u''
    assume "url_at l k' u'' \<and> (\<forall>j u'. url_at l j u' \<longrightarrow> k' \<le> j)"
    then have "re_search l = Some u''"
      using re_search_leftmost [of l k' u''] by blast
    with r show "u'' = url" by simp
  qed
  have c: "create_tunnel s prt env =
     (let lg = stamped (now env) 0
                 ((''Executing command: '' @ join_space (command env prt)) # map fst pre @
                  [l, ''Public URL found: '' @ url])
      in Some ((True, Some url, lg),
            AList.update prt
              \<lparr>process = Popen (proc_pid p), public_url = url,
               start_time = reg_time env, logs = lg, pid = proc_pid p,
               status = ''active'', health = 100, ping = 0,
               status_text = ''Active'', port = prt\<rparr> (append_logs prt lg s),
            [Spawn (command env prt), MapAssign prt, StartLogReader prt]))"
    by (rule create_tunnel_found [OF assms(1,2) no_url_lines [OF assms(3)] r])
  have "\<exists>lg s'. create_tunnel s prt env =
             Some ((True, Some url, lg), s',
                   [Spawn (command env prt), MapAssign prt, StartLogReader prt]) \<and>
           lg = stamped (now env) 0
                  ((''Executing command: '' @ join_space (command env prt)) # map fst pre @
                   [l, ''Public URL found: '' @ url]) \<and>
           map_of s' prt =
             Some \<lparr>process = Popen (proc_pid p), public_url = url,
                   start_time = reg_time env, logs = lg, pid = proc_pid p,
                   status = ''active'', health = 100, ping = 0,
                   status_text = ''Active'', port = prt\<rparr> \<and>
           (\<forall>q. q \<noteq> prt \<longrightarrow> map_of s' q = map_of s q)"
    unfolding c Let_def
    by (simp add: AList.update_conv' map_of_append_logs_other)
  with k u show ?thesis by blast
qed

theorem create_tunnel_success_witness:
  "create_tunnel [] ''5000''
     (demo_create_env (Inr \<lparr>proc_pid = 4242,
        out_lines = [(''starting\<newline>'', 1),
                     (''|  https://abc-def.trycloudflare.com  |\<newline>'', 3),
                     (''registered\<newline>'', 4)],
        ending = Silent\<rparr>)) =
   Some ((True, Some ''https://abc-def.trycloudflare.com'',
          [''[12:00:00] Executing command: cloudflared tunnel --url http://127.0.0.1:5000'',
           ''[12:00:01] starting'',
           ''[12:00:02] |  https://abc-def.trycloudflare.com  |'',
           ''[12:00:03] Public URL found: https://abc-def.trycloudflare.com'']),
         [(''5000'',
           \<lparr>process = Popen 4242, public_url = ''https://abc-def.trycloudflare.com'',
            start_time = 1700000000,
            logs =
              [''[12:00:00] Executing command: cloudflared tunnel --url http://127.0.0.1:5000'',
               ''[12:00:01] starting'',
               ''[12:00:02] |  https://abc-def.trycloudflare.com  |'',
               ''[12:00:03] Public URL found: https://abc-def.trycloudflare.com''],
            pid = 4242, status = ''active'', health = 100, ping = 0,
            status_text = ''Active'', port = ''5000''\<rparr>)],
         [Spawn [''cloudflared'', ''tunnel'', ''--url'', ''http://127.0.0.1:5000''],
          MapAssign ''5000'', StartLogReader ''5000''])"
proof -
  let ?p = "\<lparr>proc_pid = 4242,
        out_lines = [(''starting\<newline>'', 1),
                     (''|  https://abc-def.trycloudflare.com  |\<newline>'', 3),
                     (''registered\<newline>'', 4)],
        ending = Silent\<rparr>"
  have h1: "spawn (demo_create_env (Inr ?p)) = Inr ?p"
    by (simp add: demo_create_env_def)
  have h2: "out_lines ?p = [(''starting\<newline>'', 1)] @
      (''|  https://abc-def.trycloudflare.com  |\<newline>'', 3) # [(''registered\<newline>'', 4)]"
    by simp
  have "re_search ''starting\<newline>'' = None"
    by (simp add: match_here_def)
  then have "\<forall>j u'. \<not> url_at ''starting\<newline>'' j u'"
    by (rule re_search_None [THEN iffD1])
  then have h3: "\<forall>(l', t') \<in> set [(''starting\<newline>'', 1::real)].
      l' \<noteq> [] \<and> (\<forall>j u'. \<not> url_at l' j u') \<and> t' \<le> 20"
    by simp
  have h4: "url_at ''|  https://abc-def.trycloudflare.com  |\<newline>'' 3
      ''https://abc-def.trycloudflare.com''"
    unfolding url_at_def
    by (rule exI [of _ "''|  ''"], rule exI [of _ "''abc-def''"], rule exI [of _ "''  |\<newline>''"])
       (simp add: label_char_def)
  from create_tunnel_success [OF h1 h2 h3 h4, of "[]" "''5000''"]
  show ?thesis
    by (simp add: create_tunnel_eval)
qed

text \<open>
  C2, as the code has it. Whenever \<^verbatim>\<open>create_tunnel\<close> returns with the success flag
  \<open>False\<close>, the URL it returns is Python's \<^verbatim>\<open>None\<close>, not the empty string. On the
  timeout path and on the path of the stream closing before a match, the returned log
  is the entry for the command, then every consumed line, then the line that names the
  cause, each stripped and stamped with its time. On the path of an exception, raised
  by the spawn or by a later read of the output, the returned log is the single line
  \<^verbatim>\<open>Error: <exception>\<close>, which names the cause and holds no consumed line.
\<close>

theorem create_tunnel_failure_result:
  assumes "\<forall>(l', t') \<in> set pre. l' \<noteq> [] \<and> (\<forall>j u'. \<not> url_at l' j u') \<and> t' \<le> 20"
  shows "(\<forall>u lg s' acts.
            create_tunnel s prt env = Some ((False, u, lg), s', acts) \<longrightarrow> u = None) \<and>
         (spawn env = Inr p \<and> out_lines p = pre @ (l, t) # rest \<and>
          l \<noteq> [] \<and> (\<forall>j u'. \<not> url_at l j u') \<and> t > 20 \<longrightarrow>
            (\<exists>s' acts. create_tunnel s prt env =
               Some ((False, None,
                      stamped (now env) 0
                        ((''Executing command: '' @ join_space (command env prt)) #
                         map fst pre @ [l, ''Error: Timeout waiting for public URL.''])),
                     s', acts))) \<and>
         (spawn env = Inr p \<and> out_lines p = pre @ rest \<and>
          (rest = [] \<and> ending p = Closed \<or> (\<exists>t' r. rest = ([], t') # r)) \<longrightarrow>
            (\<exists>s' acts. create_tunnel s prt env =
               Some ((False, None,
                      stamped (now env) 0
                        ((''Executing command: '' @ join_space (command env prt)) #
                         map fst pre @ [''Error: Process terminated before URL was found.''])),
                     s', acts))) \<and>
         (spawn env = Inr p \<and> out_lines p = pre \<and> ending p = ReadError e \<longrightarrow>
            (\<exists>s' acts. create_tunnel s prt env =
               Some ((False, None, [''Error: '' @ e]), s', acts))) \<and>
         (spawn env = Inl e \<longrightarrow>
            (\<exists>s' acts. create_tunnel s prt env =
               Some ((False, None, [''Error: '' @ e]), s', acts)))"
proof (intro conjI allI impI)
  fix u lg s' acts
  assume "create_tunnel s prt env = Some ((False, u, lg), s', acts)"
  then show "u = None"
    by (auto simp add: create_tunnel_def fatal_error_def Let_def
        split: sum.splits prod.splits loop_exit.splits)
next
  assume "spawn env = Inr p \<and> out_lines p = pre @ (l, t) # rest \<and>
          l \<noteq> [] \<and> (\<forall>j u'. \<not> url_at l j u') \<and> t > 20"
  then have "spawn env = Inr p" "out_lines p = pre @ (l, t) # rest" "l \<noteq> []"
    "re_search l = None" "t > 20"
    by (simp_all add: re_search_None)
  from create_tunnel_timeout [OF this(1,2) no_url_lines [OF assms] this(3-5), of s prt]
  show "\<exists>s' acts. create_tunnel s prt env =
               Some ((False, None,
                      stamped (now env) 0
                        ((''Executing command: '' @ join_space (command env prt)) #
                         map fst pre @ [l, ''Error: Timeout waiting for public URL.''])),
                     s', acts)"
    by (simp add: Let_def)
next
  assume "spawn env = Inr p \<and> out_lines p = pre @ rest \<and>
          (rest = [] \<and> ending p = Closed \<or> (\<exists>t' r. rest = ([], t') # r))"
  then have "spawn env = Inr p" "out_lines p = pre @ rest"
    "rest = [] \<and> ending p = Closed \<or> (\<exists>t' r. rest = ([], t') # r)"
    by simp_all
  from create_tunnel_closed [OF this(1,2) no_url_lines [OF assms] this(3), of s prt]
  show "\<exists>s' acts. create_tunnel s prt env =
               Some ((False, None,
                      stamped (now env) 0
                        ((''Executing command: '' @ join_space (command env prt)) #
                         map fst pre @ [''Error: Process terminated before URL was found.''])),
                     s', acts)"
    by (simp add: Let_def)
next
  assume a: "spawn env = Inr p \<and> out_lines p = pre \<and> ending p = ReadError e"
  then have "\<forall>(l, t) \<in> set (out_lines p). l \<noteq> [] \<and> re_search l = None \<and> t \<le> 20"
    using no_url_lines [OF assms] by simp
  with a show "\<exists>s' acts. create_tunnel s prt env =
               Some ((False, None, [''Error: '' @ e]), s', acts)"
    by (simp add: create_tunnel_read_error)
next
  assume "spawn env = Inl e"
  then show "\<exists>s' acts. create_tunnel s prt env =
               Some ((False, None, [''Error: '' @ e]), s', acts)"
    by (simp add: create_tunnel_spawn_error)
qed

theorem create_tunnel_failure_result_witness:
  "map_option fst (create_tunnel [] ''5000''
     (demo_create_env (Inr \<lparr>proc_pid = 4242,
        out_lines = [(''\<newline>'', 1), (''still waiting\<newline>'', 25)],
        ending = Silent\<rparr>))) =
     Some (False, None,
       [''[12:00:00] Executing command: cloudflared tunnel --url http://127.0.0.1:5000'',
        ''[12:00:01] '', ''[12:00:02] still waiting'',
        ''[12:00:03] Error: Timeout waiting for public URL.'']) \<and>
   map_option fst (create_tunnel [] ''5000''
     (demo_create_env (Inr \<lparr>proc_pid = 4242,
        out_lines = [(''\<newline>'', 1)], ending = Closed\<rparr>))) =
     Some (False, None,
       [''[12:00:00] Executing command: cloudflared tunnel --url http://127.0.0.1:5000'',
        ''[12:00:01] '',
        ''[12:00:02] Error: Process terminated before URL was found.'']) \<and>
   map_option fst (create_tunnel [] ''5000''
     (demo_create_env (Inr \<lparr>proc_pid = 4242,
        out_lines = [(''\<newline>'', 1)], ending = ReadError ''invalid start byte''\<rparr>))) =
     Some (False, None, [''Error: invalid start byte'']) \<and>
   map_option fst (create_tunnel [] ''5000''
     (demo_create_env (Inl ''[Errno 2] No such file or directory''))) =
     Some (False, None, [''Error: [Errno 2] No such file or directory''])"
proof -
  let ?p1 = "\<lparr>proc_pid = 4242,
        out_lines = [(''\<newline>'', 1), (''still waiting\<newline>'', 25)],
        ending = Silent\<rparr>"
  let ?p2 = "\<lparr>proc_pid = 4242, out_lines = [(''\<newline>'', 1::real)], ending = Closed\<rparr>"
  let ?p3 = "\<lparr>proc_pid = 4242, out_lines = [(''\<newline>'', 1::real)],
        ending = ReadError ''invalid start byte''\<rparr>"
  have "re_search ''\<newline>'' = None"
    by (simp add: match_here_def)
  then have "\<forall>j u'. \<not> url_at ''\<newline>'' j u'"
    by (rule re_search_None [THEN iffD1])
  then have h: "\<forall>(l', t') \<in> set [(''\<newline>'', 1::real)].
      l' \<noteq> [] \<and> (\<forall>j u'. \<not> url_at l' j u') \<and> t' \<le> 20"
    by simp
  have "re_search ''still waiting\<newline>'' = None"
    by (simp add: match_here_def)
  then have n: "\<forall>j u'. \<not> url_at ''still waiting\<newline>'' j u'"
    by (rule re_search_None [THEN iffD1])
  have a: "spawn (demo_create_env (Inr ?p1)) = Inr ?p1 \<and>
      out_lines ?p1 = [(''\<newline>'', 1)] @ (''still waiting\<newline>'', 25) # [] \<and>
      ''still waiting\<newline>'' \<noteq> [] \<and> (\<forall>j u'. \<not> url_at ''still waiting\<newline>'' j u') \<and>
      (25::real) > 20"
    using n by (simp add: demo_create_env_def)
  have b: "spawn (demo_create_env (Inr ?p2)) = Inr ?p2 \<and>
      out_lines ?p2 = [(''\<newline>'', 1)] @ [] \<and>
      ([] = [] \<and> ending ?p2 = Closed \<or> (\<exists>t' r. [] = ([]:: string, t' :: real) # r))"
    by (simp add: demo_create_env_def)
  have c: "spawn (demo_create_env (Inr ?p3)) = Inr ?p3 \<and>
      out_lines ?p3 = [(''\<newline>'', 1)] \<and> ending ?p3 = ReadError ''invalid start byte''"
    by (simp add: demo_create_env_def)
  have d: "spawn (demo_create_env (Inl ''[Errno 2] No such file or directory'')) =
      Inl ''[Errno 2] No such file or directory''"
    by (simp add: demo_create_env_def)
  from create_tunnel_failure_result [OF h, where s = "[]" and prt = "''5000''"
      and env = "demo_create_env (Inr ?p1)" and p = ?p1 and l = "''still waiting\<newline>''"
      and t = 25 and rest = "[]"] a
  have r1: "\<exists>s' acts. create_tunnel [] ''5000'' (demo_create_env (Inr ?p1)) =
      Some ((False, None, stamped (now (demo_create_env (Inr ?p1))) 0
        ((''Executing command: '' @ join_space (command (demo_create_env (Inr ?p1)) ''5000'')) #
           map fst [(''\<newline>'', 1::real)] @
           [''still waiting\<newline>'', ''Error: Timeout waiting for public URL.''])), s', acts)"
    by blast
  from create_tunnel_failure_result [OF h, where s = "[]" and prt = "''5000''"
      and env = "demo_create_env (Inr ?p2)" and p = ?p2 and rest = "[]"] b
  have r2: "\<exists>s' acts. create_tunnel [] ''5000'' (demo_create_env (Inr ?p2)) =
      Some ((False, None, stamped (now (demo_create_env (Inr ?p2))) 0
        ((''Executing command: '' @ join_space (command (demo_create_env (Inr ?p2)) ''5000'')) #
           map fst [(''\<newline>'', 1::real)] @
           [''Error: Process terminated before URL was found.''])), s', acts)"
    by blast
  from create_tunnel_failure_result [OF h, where s = "[]" and prt = "''5000''"
      and env = "demo_create_env (Inr ?p3)" and p = ?p3 and e = "''invalid start byte''"] c
  have r3: "\<exists>s' acts. create_tunnel [] ''5000'' (demo_create_env (Inr ?p3)) =
      Some ((False, None, [''Error: '' @ ''invalid start byte'']), s', acts)"
    by blast
  from create_tunnel_failure_result [OF h, where s = "[]" and prt = "''5000''"
      and env = "demo_create_env (Inl ''[Errno 2] No such file or directory'')"
      and e = "''[Errno 2] No such file or directory''"] d
  have r4: "\<exists>s' acts. create_tunnel [] ''5000''
      (demo_create_env (Inl ''[Errno 2] No such file or directory'')) =
      Some ((False, None, [''Error: '' @ ''[Errno 2] No such file or directory'']), s', acts)"
    by blast
  have s1: "stamped (now (demo_create_env (Inr ?p1))) 0
        ((''Executing command: '' @ join_space (command (demo_create_env (Inr ?p1)) ''5000'')) #
           map fst [(''\<newline>'', 1::real)] @
           [''still waiting\<newline>'', ''Error: Timeout waiting for public URL.'']) =
       [''[12:00:00] Executing command: cloudflared tunnel --url http://127.0.0.1:5000'',
        ''[12:00:01] '', ''[12:00:02] still waiting'',
        ''[12:00:03] Error: Timeout waiting for public URL.'']"
    by (simp add: create_tunnel_eval)
  have s2: "stamped (now (demo_create_env (Inr ?p2))) 0
        ((''Executing command: '' @ join_space (command (demo_create_env (Inr ?p2)) ''5000'')) #
           map fst [(''\<newline>'', 1::real)] @
           [''Error: Process terminated before URL was found.'']) =
       [''[12:00:00] Executing command: cloudflared tunnel --url http://127.0.0.1:5000'',
        ''[12:00:01] '',
        ''[12:00:02] Error: Process terminated before URL was found.'']"
    by (simp add: create_tunnel_eval)
  from r1 r2 r3 r4 show ?thesis
    unfolding s1 s2 by auto
qed

text \<open>
  C2 as the specification states it fails. When the stream closes at once, the URL
  returned with the flag \<open>False\<close> is \<^verbatim>\<open>None\<close>, not the empty string. When the read
  after the line \<^verbatim>\<open>starting\<close> raises, the returned log is the single line of the
  error and the consumed line is not in it.
\<close>

theorem create_tunnel_failure_url_counterexample:
  "create_tunnel [] ''5000''
     (demo_create_env (Inr \<lparr>proc_pid = 4242, out_lines = [], ending = Closed\<rparr>)) =
   Some ((False, None,
          [''[12:00:00] Executing command: cloudflared tunnel --url http://127.0.0.1:5000'',
           ''[12:00:01] Error: Process terminated before URL was found.'']),
         [], [Spawn [''cloudflared'', ''tunnel'', ''--url'', ''http://127.0.0.1:5000''],
              Terminate 4242]) \<and>
   (None :: string option) \<noteq> Some '''' \<and>
   create_tunnel [] ''5000''
     (demo_create_env (Inr \<lparr>proc_pid = 4242, out_lines = [(''starting\<newline>'', 1)],
        ending = ReadError ''invalid start byte''\<rparr>)) =
   Some ((False, None, [''Error: invalid start byte'']),
         [], [Spawn [''cloudflared'', ''tunnel'', ''--url'', ''http://127.0.0.1:5000'']]) \<and>
   log_entry ''12:00:01'' ''starting\<newline>'' \<notin> set [''Error: invalid start byte'']"
  by (simp add: create_tunnel_eval)

text \<open>
  C8. The claim is what the comments of lines 112 and 125 intend, a discovery that
  fails once 20 seconds have passed without a match, and the code does not do it:
  the clock is read only after \<^verbatim>\<open>readline\<close> has returned a line that does not match.
  With a process that prints one line and then stays silent without closing its
  output, \<^verbatim>\<open>create_tunnel\<close> never returns. With a process whose first matching line
  comes 30 seconds after the start, \<^verbatim>\<open>create_tunnel\<close> succeeds and registers the
  record. With a read that raises after the first line, \<^verbatim>\<open>create_tunnel\<close> fails
  without asking the process to terminate.
\<close>

theorem create_tunnel_timeout_not_enforced:
  "create_tunnel [] ''5000''
     (demo_create_env (Inr \<lparr>proc_pid = 4242, out_lines = [(''starting\<newline>'', 1)],
        ending = Silent\<rparr>)) = None \<and>
   create_tunnel [] ''5000''
     (demo_create_env (Inr \<lparr>proc_pid = 4242,
        out_lines = [(''starting\<newline>'', 1), (''https://abc-def.trycloudflare.com\<newline>'', 30)],
        ending = Closed\<rparr>)) =
   Some ((True, Some ''https://abc-def.trycloudflare.com'',
          [''[12:00:00] Executing command: cloudflared tunnel --url http://127.0.0.1:5000'',
           ''[12:00:01] starting'',
           ''[12:00:02] https://abc-def.trycloudflare.com'',
           ''[12:00:03] Public URL found: https://abc-def.trycloudflare.com'']),
         [(''5000'',
           \<lparr>process = Popen 4242, public_url = ''https://abc-def.trycloudflare.com'',
            start_time = 1700000000,
            logs =
              [''[12:00:00] Executing command: cloudflared tunnel --url http://127.0.0.1:5000'',
               ''[12:00:01] starting'',
               ''[12:00:02] https://abc-def.trycloudflare.com'',
               ''[12:00:03] Public URL found: https://abc-def.trycloudflare.com''],
            pid = 4242, status = ''active'', health = 100, ping = 0,
            status_text = ''Active'', port = ''5000''\<rparr>)],
         [Spawn [''cloudflared'', ''tunnel'', ''--url'', ''http://127.0.0.1:5000''],
          MapAssign ''5000'', StartLogReader ''5000'']) \<and>
   create_tunnel [] ''5000''
     (demo_create_env (Inr \<lparr>proc_pid = 4242, out_lines = [(''starting\<newline>'', 1)],
        ending = ReadError ''invalid start byte''\<rparr>)) =
   Some ((False, None, [''Error: invalid start byte'']),
         [], [Spawn [''cloudflared'', ''tunnel'', ''--url'', ''http://127.0.0.1:5000'']])"
  by (simp add: create_tunnel_eval)

section \<open>Facts about the snapshot\<close>

lemma set_update_cases:
  "(a, b) \<in> set (AList.update k v al) \<Longrightarrow> (a, b) = (k, v) \<or> (a, b) \<in> set al"
  by (induction al) (auto split: if_splits)

lemma snapshot_fold_keys:
  "fst ` set (foldl (\<lambda>snapshot (prt, d). AList.update prt (f prt d) snapshot) acc s) =
   fst ` set acc \<union> fst ` set s"
proof (induction s arbitrary: acc)
  case Nil
  then show ?case by simp
next
  case (Cons x s)
  obtain k d where x: "x = (k, d)" by (cases x)
  have "fst ` set (AList.update k (f k d) acc) = insert k (fst ` set acc)"
    by (simp add: AList.dom_update)
  then show ?case
    by (simp add: x Cons.IH)
qed

lemma snapshot_fold_distinct:
  "distinct (map fst acc) \<Longrightarrow>
   distinct (map fst (foldl (\<lambda>snapshot (prt, d). AList.update prt (f prt d) snapshot) acc s))"
  by (induction s arbitrary: acc) (auto simp add: AList.distinct_update)

lemma snapshot_fold_entries:
  assumes "\<forall>(k, obj) \<in> set acc. \<exists>d. (k, d) \<in> set S \<and> obj = f k d"
    and "set s \<subseteq> set S"
  shows "\<forall>(k, obj) \<in> set (foldl (\<lambda>snapshot (prt, d). AList.update prt (f prt d) snapshot) acc s).
           \<exists>d. (k, d) \<in> set S \<and> obj = f k d"
  using assms
proof (induction s arbitrary: acc)
  case Nil
  then show ?case by simp
next
  case (Cons x s)
  obtain k d where x: "x = (k, d)" by (cases x)
  have "\<forall>(k', obj) \<in> set (AList.update k (f k d) acc). \<exists>d'. (k', d') \<in> set S \<and> obj = f k' d'"
  proof (clarify)
    fix k' obj
    assume "(k', obj) \<in> set (AList.update k (f k d) acc)"
    then have "(k', obj) = (k, f k d) \<or> (k', obj) \<in> set acc"
      by (rule set_update_cases)
    then show "\<exists>d'. (k', d') \<in> set S \<and> obj = f k' d'"
      using Cons.prems x by auto
  qed
  moreover have "set s \<subseteq> set S" using Cons.prems by simp
  ultimately show ?case
    using Cons.IH [of "AList.update k (f k d) acc"] by (simp add: x)
qed

lemma json_keys_snapshot_entry:
  "json_keys (snapshot_entry isoformat prt d) =
     [''port'', ''public_url'', ''status'', ''status_text'', ''health'', ''ping'', ''pid'',
      ''start_time'']"
  by (simp add: json_keys_def snapshot_entry_def)

text \<open>
  C9. For every state of the live map, the payload written to \<^verbatim>\<open>log.json\<close> is an
  object with exactly the fields \<open>generated_at\<close>, the string of
  \<^verbatim>\<open>datetime.now().isoformat()\<close>, and \<open>tunnels\<close>. The object under \<open>tunnels\<close> has
  one field for each port of the map and no other; the value of the field of a port is
  the projection of a record of that port, an object with exactly the fields
  \<open>port\<close> (the port itself), \<open>public_url\<close>, \<open>status\<close>, \<open>status_text\<close>, \<open>health\<close>,
  \<open>ping\<close>, \<open>pid\<close> and \<open>start_time\<close>, so neither \<open>logs\<close> nor \<open>process\<close> is a field
  of it.
\<close>

theorem log_payload_fields:
  "\<exists>snap.
     log_payload generated isoformat s =
       JObj [(''generated_at'', JStr generated), (''tunnels'', JObj snap)] \<and>
     json_keys (log_payload generated isoformat s) = [''generated_at'', ''tunnels''] \<and>
     fst ` set snap = fst ` set s \<and> distinct (map fst snap) \<and>
     (\<forall>(k, obj) \<in> set snap.
        (\<exists>d. (k, d) \<in> set s \<and> obj = snapshot_entry isoformat k d) \<and>
        map_of (case obj of JObj kvs \<Rightarrow> kvs | _ \<Rightarrow> []) ''port'' = Some (JStr k) \<and>
        json_keys obj =
          [''port'', ''public_url'', ''status'', ''status_text'', ''health'', ''ping'',
           ''pid'', ''start_time''] \<and>
        ''logs'' \<notin> set (json_keys obj) \<and> ''process'' \<notin> set (json_keys obj))"
proof -
  let ?snap = "snapshot_for_log isoformat s"
  have k: "fst ` set ?snap = fst ` set s"
    unfolding snapshot_for_log_def by (simp add: snapshot_fold_keys)
  have d: "distinct (map fst ?snap)"
    unfolding snapshot_for_log_def by (rule snapshot_fold_distinct) simp
  have e: "\<forall>(k, obj) \<in> set ?snap. \<exists>d. (k, d) \<in> set s \<and> obj = snapshot_entry isoformat k d"
    unfolding snapshot_for_log_def by (rule snapshot_fold_entries) simp_all
  have f: "\<forall>(k, obj) \<in> set ?snap.
        (\<exists>d. (k, d) \<in> set s \<and> obj = snapshot_entry isoformat k d) \<and>
        map_of (case obj of JObj kvs \<Rightarrow> kvs | _ \<Rightarrow> []) ''port'' = Some (JStr k) \<and>
        json_keys obj =
          [''port'', ''public_url'', ''status'', ''status_text'', ''health'', ''ping'',
           ''pid'', ''start_time''] \<and>
        ''logs'' \<notin> set (json_keys obj) \<and> ''process'' \<notin> set (json_keys obj)"
  proof (clarify)
    fix k obj
    assume "(k, obj) \<in> set ?snap"
    with e obtain d where o: "(k, d) \<in> set s" "obj = snapshot_entry isoformat k d"
      by blast
    have "map_of (case obj of JObj kvs \<Rightarrow> kvs | _ \<Rightarrow> []) ''port'' = Some (JStr k)"
      by (simp add: o(2) snapshot_entry_def)
    then show "(\<exists>d. (k, d) \<in> set s \<and> obj = snapshot_entry isoformat k d) \<and>
        map_of (case obj of JObj kvs \<Rightarrow> kvs | _ \<Rightarrow> []) ''port'' = Some (JStr k) \<and>
        json_keys obj =
          [''port'', ''public_url'', ''status'', ''status_text'', ''health'', ''ping'',
           ''pid'', ''start_time''] \<and>
        ''logs'' \<notin> set (json_keys obj) \<and> ''process'' \<notin> set (json_keys obj)"
      using o by (auto simp add: json_keys_snapshot_entry)
  qed
  have "log_payload generated isoformat s =
       JObj [(''generated_at'', JStr generated), (''tunnels'', JObj ?snap)]"
    by (simp add: log_payload_def)
  moreover have "json_keys (log_payload generated isoformat s) = [''generated_at'', ''tunnels'']"
    by (simp add: log_payload_def json_keys_def)
  ultimately show ?thesis using k d f by blast
qed


theorem log_payload_fields_witness:
  "log_payload ''2026-11-03T10:00:00.000001'' (\<lambda>t. ''2023-11-14T22:13:20'') demo_tunnels =
   JObj
    [(''generated_at'', JStr ''2026-11-03T10:00:00.000001''),
     (''tunnels'',
      JObj
       [(''5000'',
         JObj
          [(''port'', JStr ''5000''),
           (''public_url'', JStr ''https://abc-def.trycloudflare.com''),
           (''status'', JStr ''active''), (''status_text'', JStr ''Active''),
           (''health'', JInt 100), (''ping'', JInt 0), (''pid'', JInt 4242),
           (''start_time'', JStr ''2023-11-14T22:13:20'')]),
        (''8080'',
         JObj
          [(''port'', JStr ''8080''),
           (''public_url'', JStr ''https://abc-def.trycloudflare.com''),
           (''status'', JStr ''active''), (''status_text'', JStr ''Active''),
           (''health'', JInt 100), (''ping'', JInt 0), (''pid'', JInt 77),
           (''start_time'', JStr ''2023-11-14T22:13:20'')])])]"
proof -
  have v: "snapshot_for_log (\<lambda>t. ''2023-11-14T22:13:20'') demo_tunnels =
       [(''5000'',
         JObj
          [(''port'', JStr ''5000''),
           (''public_url'', JStr ''https://abc-def.trycloudflare.com''),
           (''status'', JStr ''active''), (''status_text'', JStr ''Active''),
           (''health'', JInt 100), (''ping'', JInt 0), (''pid'', JInt 4242),
           (''start_time'', JStr ''2023-11-14T22:13:20'')]),
        (''8080'',
         JObj
          [(''port'', JStr ''8080''),
           (''public_url'', JStr ''https://abc-def.trycloudflare.com''),
           (''status'', JStr ''active''), (''status_text'', JStr ''Active''),
           (''health'', JInt 100), (''ping'', JInt 0), (''pid'', JInt 77),
           (''start_time'', JStr ''2023-11-14T22:13:20'')])]"
    by (simp add: snapshot_for_log_def snapshot_entry_def demo_tunnels_def demo_tunnel_def)
  from log_payload_fields [of "''2026-11-03T10:00:00.000001''"
      "\<lambda>t. ''2023-11-14T22:13:20''" demo_tunnels]
  obtain snap where
    "log_payload ''2026-11-03T10:00:00.000001'' (\<lambda>t. ''2023-11-14T22:13:20'') demo_tunnels =
       JObj [(''generated_at'', JStr ''2026-11-03T10:00:00.000001''), (''tunnels'', JObj snap)]"
    by blast
  moreover from this have "snap = snapshot_for_log (\<lambda>t. ''2023-11-14T22:13:20'') demo_tunnels"
    by (simp add: log_payload_def)
  ultimately show ?thesis
    by (simp only: v)
qed


end
